theory Spec2Isabelle
  imports Complex_Main
begin

section \<open>Data model\<close>

text \<open>
  The two hooks of the repository (\<open>useHRApplications\<close> and \<open>useApplications\<close>) talk to a
  backend-as-a-service (tables \<open>resumes\<close> and \<open>applications\<close>, storage bucket \<open>resumes\<close>)
  and to the scoring service over HTTP. The hooks are embedded as functions that pass a
  \<open>world\<close> along: the backend's tables and bucket, the list of calls the hook has made, and
  the list of things it has shown (console, toasts, cache invalidations).
  What the outside decides (who is logged in, which call fails, what the scoring service
  answers, what the clock reads) is an \<open>env\<close>.
\<close>

type_synonym timestamp = nat
type_synonym number = real

datatype status = pending | reviewed | accepted | rejected

text \<open>
  A thrown value: an instance of \<open>Error\<close> carrying a message, or an error object of the
  backend client that has a \<open>message\<close> but need not be an instance of \<open>Error\<close>.
\<close>

datatype thrown = Error string | ErrorObject string

fun message :: "thrown \<Rightarrow> string" where
  "message (Error m) = m"
| "message (ErrorObject m) = m"

text \<open>Row of table \<open>resumes\<close> (\<open>types.ts\<close>, \<open>resumes.Row\<close>).\<close>

record resume_row =
  file_name :: string
  file_path :: string
  resume_id :: string
  uploaded_at :: "timestamp option"
  resume_user_id :: "string option"

text \<open>
  Row of table \<open>applications\<close>, with the columns the hooks read and write
  (\<open>JobSeekerApplication\<close> plus \<open>user_id\<close>).
\<close>

record application_row =
  app_id :: string
  app_job_id :: string
  app_user_id :: string
  app_status :: status
  app_applied_at :: timestamp
  app_cover_letter :: "string option"
  app_ats_score :: "number option"
  app_predicted_category :: "string option"
  app_confidence_score :: "number option"
  app_ats_calculated_at :: "timestamp option"

text \<open>The JSON body of the scoring service: \<open>{ats_score, predicted_category, confidence}\<close>.\<close>

record score_result =
  res_ats_score :: number
  res_predicted_category :: string
  res_confidence :: number

datatype form_value = Text string | Blob string

type_synonym form_data = "(string \<times> form_value) list"

text \<open>
  What \<open>fetch\<close> gives: a rejected promise (network failure), or a response with a status
  code whose \<open>json()\<close> either throws or yields the body.
\<close>

datatype fetch_result = NetworkFailure thrown | Response nat "thrown + score_result"

definition ok :: "nat \<Rightarrow> bool" where
  "ok code = (200 \<le> code \<and> code \<le> 299)"

text \<open>The calls a hook makes on the backend, the storage and the network.\<close>

datatype call =
    SelectLatestResume string
  | SelectApplication string string
  | InsertApplication string string status "string option"
  | UpdateStatus string status
  | UpdateScores string number string number timestamp
  | StorageDownload string
  | CreateSignedUrl string nat
  | Fetch string string form_data

text \<open>
  What a hook shows: a line on the console, a toast (title and description), a destructive
  toast, the toast for a computed score (title \<open>ATS Score calculated: <score, one decimal>%\<close>,
  description \<open>Category: <category>\<close>, kept as the two values), a cache invalidation.
\<close>

datatype ui_event =
    ConsoleError string thrown
  | Toast string string
  | ToastDestructive string string
  | ToastAtsScore number string
  | InvalidateQueries

record world =
  resumes_tbl :: "resume_row list"
  applications_tbl :: "application_row list"
  bucket :: "(string \<times> string) list"
  calls :: "call list"
  ui :: "ui_event list"

record env =
  user :: "string option"
  resume_lookup_error :: "thrown option"
  existing_lookup_error :: "thrown option"
  insert_outcome :: "thrown + string"
  insert_time :: timestamp
  status_update_error :: "thrown option"
  download_error :: "thrown option"
  fetch :: "string \<Rightarrow> form_data \<Rightarrow> fetch_result"
  update_error :: "thrown option"
  clock :: timestamp
  clock2 :: timestamp
  sign_outcome :: "thrown + string"

section \<open>The backend client\<close>

text \<open>
  Modelled from the spec: the backend client is a library outside the repository; its
  operations follow the contract of the spec's section 6 (\<open>findLatestResumeByApplicant\<close>,
  \<open>findApplicationByApplicantAndJob\<close>, \<open>insertApplication\<close>, \<open>updateApplicationStatus\<close>,
  \<open>updateApplicationScoring\<close>, \<open>downloadResumeBytes\<close>, \<open>createSignedDownloadUrl\<close>).
  Every operation appends the call to \<open>calls\<close>; an operation that fails leaves the tables
  as they were.
\<close>

definition log_call :: "call \<Rightarrow> world \<Rightarrow> world" where
  "log_call c w = w\<lparr>calls := calls w @ [c]\<rparr>"

definition log_note :: "ui_event \<Rightarrow> world \<Rightarrow> world" where
  "log_note n w = w\<lparr>ui := ui w @ [n]\<rparr>"

text \<open>\<open>order('uploaded_at', {ascending: false})\<close>: later first, rows without a time first.\<close>

fun precedes :: "timestamp option \<Rightarrow> timestamp option \<Rightarrow> bool" where
  "precedes None None = False"
| "precedes None (Some t) = True"
| "precedes (Some s) None = False"
| "precedes (Some s) (Some t) = (t < s)"

fun first_by_uploaded_at :: "resume_row list \<Rightarrow> resume_row option" where
  "first_by_uploaded_at [] = None"
| "first_by_uploaded_at (r # rs) =
     (case first_by_uploaded_at rs of
        None \<Rightarrow> Some r
      | Some r' \<Rightarrow> if precedes (uploaded_at r') (uploaded_at r) then Some r' else Some r)"

text \<open>
  \<open>from('resumes').select(..).eq('user_id', uid).order('uploaded_at', desc).limit(1).maybeSingle()\<close>:
  data and error.
\<close>

definition select_latest_resume ::
  "env \<Rightarrow> string \<Rightarrow> world \<Rightarrow> (resume_row option \<times> thrown option) \<times> world" where
  "select_latest_resume e uid w =
     (case resume_lookup_error e of
        Some err \<Rightarrow> ((None, Some err), log_call (SelectLatestResume uid) w)
      | None \<Rightarrow>
          ((first_by_uploaded_at (filter (\<lambda>r. resume_user_id r = Some uid) (resumes_tbl w)), None),
           log_call (SelectLatestResume uid) w))"

text \<open>
  \<open>from('applications').select('id').eq('job_id', jobId).eq('user_id', uid).maybeSingle()\<close>:
  no row gives no data, one row gives that row, several rows give an error and no data.
\<close>

definition select_application ::
  "env \<Rightarrow> string \<Rightarrow> string \<Rightarrow> world \<Rightarrow> (application_row option \<times> thrown option) \<times> world" where
  "select_application e jobId uid w =
     (case existing_lookup_error e of
        Some err \<Rightarrow> ((None, Some err), log_call (SelectApplication jobId uid) w)
      | None \<Rightarrow>
          (case filter (\<lambda>a. app_job_id a = jobId \<and> app_user_id a = uid) (applications_tbl w) of
             [] \<Rightarrow> ((None, None), log_call (SelectApplication jobId uid) w)
           | [a] \<Rightarrow> ((Some a, None), log_call (SelectApplication jobId uid) w)
           | _ \<Rightarrow> ((None, Some (ErrorObject ''JSON object requested, multiple (or no) rows returned'')),
                   log_call (SelectApplication jobId uid) w)))"

text \<open>
  \<open>from('applications').insert({job_id, user_id, status, cover_letter}).select('id').single()\<close>:
  the backend assigns the id and the submission time, the scoring columns start null.
\<close>

definition new_application ::
  "string \<Rightarrow> string \<Rightarrow> string \<Rightarrow> status \<Rightarrow> timestamp \<Rightarrow> string option \<Rightarrow> application_row" where
  "new_application newId jobId uid st t cl =
     \<lparr>app_id = newId, app_job_id = jobId, app_user_id = uid, app_status = st,
      app_applied_at = t, app_cover_letter = cl, app_ats_score = None,
      app_predicted_category = None, app_confidence_score = None,
      app_ats_calculated_at = None\<rparr>"

definition insert_application ::
  "env \<Rightarrow> string \<Rightarrow> string \<Rightarrow> status \<Rightarrow> string option \<Rightarrow> world \<Rightarrow> (thrown + string) \<times> world" where
  "insert_application e jobId uid st cl w =
     (case insert_outcome e of
        Inl err \<Rightarrow> (Inl err, log_call (InsertApplication jobId uid st cl) w)
      | Inr newId \<Rightarrow>
          (Inr newId,
           log_call (InsertApplication jobId uid st cl)
             (w\<lparr>applications_tbl :=
                  applications_tbl w @ [new_application newId jobId uid st (insert_time e) cl]\<rparr>)))"

text \<open>\<open>from('applications').update({status: newStatus}).eq('id', applicationId)\<close>.\<close>

definition update_status ::
  "env \<Rightarrow> string \<Rightarrow> status \<Rightarrow> world \<Rightarrow> thrown option \<times> world" where
  "update_status e applicationId newStatus w =
     (case status_update_error e of
        Some err \<Rightarrow> (Some err, log_call (UpdateStatus applicationId newStatus) w)
      | None \<Rightarrow>
          (None,
           log_call (UpdateStatus applicationId newStatus)
             (w\<lparr>applications_tbl :=
                  map (\<lambda>a. if app_id a = applicationId then a\<lparr>app_status := newStatus\<rparr> else a)
                    (applications_tbl w)\<rparr>)))"

text \<open>
  \<open>from('applications').update({ats_score, predicted_category, confidence_score,
  ats_calculated_at}).eq('id', applicationId)\<close>: one statement that sets the four columns.
\<close>

definition set_scores ::
  "number \<Rightarrow> string \<Rightarrow> number \<Rightarrow> timestamp \<Rightarrow> application_row \<Rightarrow> application_row" where
  "set_scores s c k t a =
     a\<lparr>app_ats_score := Some s, app_predicted_category := Some c,
       app_confidence_score := Some k, app_ats_calculated_at := Some t\<rparr>"

definition update_scores ::
  "env \<Rightarrow> string \<Rightarrow> number \<Rightarrow> string \<Rightarrow> number \<Rightarrow> timestamp \<Rightarrow> world \<Rightarrow> thrown option \<times> world" where
  "update_scores e applicationId s c k t w =
     (case update_error e of
        Some err \<Rightarrow> (Some err, log_call (UpdateScores applicationId s c k t) w)
      | None \<Rightarrow>
          (None,
           log_call (UpdateScores applicationId s c k t)
             (w\<lparr>applications_tbl :=
                  map (\<lambda>a. if app_id a = applicationId then set_scores s c k t a else a)
                    (applications_tbl w)\<rparr>)))"

text \<open>\<open>storage.from('resumes').download(path)\<close>: the bytes stored under the path.\<close>

definition storage_download ::
  "env \<Rightarrow> string \<Rightarrow> world \<Rightarrow> (thrown + string) \<times> world" where
  "storage_download e path w =
     (case download_error e of
        Some err \<Rightarrow> (Inl err, log_call (StorageDownload path) w)
      | None \<Rightarrow>
          (case map_of (bucket w) path of
             None \<Rightarrow> (Inl (ErrorObject ''Object not found''), log_call (StorageDownload path) w)
           | Some bytes \<Rightarrow> (Inr bytes, log_call (StorageDownload path) w)))"

text \<open>\<open>storage.from('resumes').createSignedUrl(path, expiresIn)\<close>.\<close>

definition create_signed_url ::
  "env \<Rightarrow> string \<Rightarrow> nat \<Rightarrow> world \<Rightarrow> (thrown + string) \<times> world" where
  "create_signed_url e path expiresIn w =
     (sign_outcome e, log_call (CreateSignedUrl path expiresIn) w)"

text \<open>\<open>fetch(url, {method: 'POST', body: formData})\<close>.\<close>

definition post :: "env \<Rightarrow> string \<Rightarrow> form_data \<Rightarrow> world \<Rightarrow> fetch_result \<times> world" where
  "post e url formData w = (fetch e url formData, log_call (Fetch ''POST'' url formData) w)"

section \<open>hooks/useApplications.ts\<close>

definition ATS_API_URL :: string where
  "ATS_API_URL = ''https://atsscore-production-1ce3.up.railway.app''"

text \<open>The \<open>catch\<close> of \<open>calculateAndSaveAtsScore\<close>: log and throw again.\<close>

definition rethrow :: "thrown \<Rightarrow> world \<Rightarrow> (thrown + score_result) \<times> world" where
  "rethrow err w = (Inl err, log_note (ConsoleError ''Error in calculateAndSaveAtsScore:'' err) w)"

definition calculateAndSaveAtsScore ::
  "env \<Rightarrow> string \<Rightarrow> string \<Rightarrow> string \<Rightarrow> world \<Rightarrow> (thrown + score_result) \<times> world" where
  "calculateAndSaveAtsScore e applicationId jobDescription resumeFilePath w =
     (case storage_download e resumeFilePath w of
        (Inl downloadError, w1) \<Rightarrow> rethrow downloadError w1
      | (Inr fileData, w1) \<Rightarrow>
          (case post e (ATS_API_URL @ ''/analyze-resume'')
                  [(''job_description'', Text jobDescription), (''resume_file'', Blob fileData)] w1 of
             (NetworkFailure err, w2) \<Rightarrow> rethrow err w2
           | (Response code body, w2) \<Rightarrow>
               if \<not> ok code then rethrow (Error ''Failed to calculate ATS score'') w2
               else
                 (case body of
                    Inl err \<Rightarrow> rethrow err w2
                  | Inr result \<Rightarrow>
                      (case update_scores e applicationId (res_ats_score result)
                              (res_predicted_category result) (res_confidence result) (clock e) w2 of
                         (Some updateError, w3) \<Rightarrow> rethrow updateError w3
                       | (None, w3) \<Rightarrow>
                           (Inr result,
                            log_note InvalidateQueries
                              (log_note (ToastAtsScore (res_ats_score result)
                                           (res_predicted_category result)) w3))))))"

text \<open>\<open>coverLetter || null\<close>: an absent or empty cover letter becomes null.\<close>

fun or_null :: "string option \<Rightarrow> string option" where
  "or_null None = None"
| "or_null (Some s) = (if s = [] then None else Some s)"

text \<open>\<open>mutationFn\<close> of \<open>applyToJobMutation\<close>.\<close>

definition mutationFn ::
  "env \<Rightarrow> string \<Rightarrow> string \<Rightarrow> string option \<Rightarrow> world \<Rightarrow> (thrown + string) \<times> world" where
  "mutationFn e jobId jobDescription coverLetter w =
     (case user e of
        None \<Rightarrow> (Inl (Error ''Please log in to apply for jobs''), w)
      | Some uid \<Rightarrow>
          if uid = [] then (Inl (Error ''Please log in to apply for jobs''), w)
          else
            (case select_latest_resume e uid w of
               ((resumeData, resumeError), w1) \<Rightarrow>
                 if resumeError \<noteq> None \<or> resumeData = None
                    \<or> (case resumeData of None \<Rightarrow> True | Some r \<Rightarrow> file_path r = [])
                 then (Inl (Error ''RESUME_REQUIRED''), w1)
                 else
                   (case select_application e jobId uid w1 of
                      ((existingApplication, _), w2) \<Rightarrow>
                        if existingApplication \<noteq> None
                        then (Inl (Error ''You have already applied to this job!''), w2)
                        else
                          (case insert_application e jobId uid pending (or_null coverLetter) w2 of
                             (Inl applicationError, w3) \<Rightarrow> (Inl applicationError, w3)
                           | (Inr newId, w3) \<Rightarrow>
                               (case calculateAndSaveAtsScore e newId jobDescription
                                       (case resumeData of None \<Rightarrow> [] | Some r \<Rightarrow> file_path r) w3 of
                                  (Inl atsError, w4) \<Rightarrow>
                                    (Inr newId,
                                     log_note (ConsoleError ''ATS calculation failed:'' atsError) w4)
                                | (Inr _, w4) \<Rightarrow> (Inr newId, w4))))))"

text \<open>\<open>String.prototype.includes\<close>.\<close>

fun includes_str :: "string \<Rightarrow> string \<Rightarrow> bool" where
  "includes_str [] sub = (sub = [])"
| "includes_str (c # cs) sub = (take (length sub) (c # cs) = sub \<or> includes_str cs sub)"

text \<open>
  \<open>onSuccess\<close> and \<open>onError\<close> of the mutation. The success toast's title ends in an emoji in
  the source, left out here.
\<close>

definition onSuccess :: "world \<Rightarrow> world" where
  "onSuccess w =
     log_note (Toast ''Application submitted successfully!'' ''Your ATS score is being calculated...'')
       (log_note InvalidateQueries w)"

definition onError :: "thrown \<Rightarrow> world \<Rightarrow> world" where
  "onError err w =
     (if message err = ''RESUME_REQUIRED''
      then log_note (ToastDestructive ''Resume Required''
                       ''Please first upload your resume before applying to jobs.'') w
      else if includes_str (message err) ''already applied''
      then log_note (ToastDestructive ''Already Applied'' ''You have already applied to this job!'') w
      else log_note (ToastDestructive ''Application Failed'' (message err)) w)"

text \<open>\<open>applyToJob\<close>: \<open>applyToJobMutation.mutate\<close> runs \<open>mutationFn\<close>, then one of the callbacks.\<close>

definition applyToJob ::
  "env \<Rightarrow> string \<Rightarrow> string \<Rightarrow> string option \<Rightarrow> world \<Rightarrow> (thrown + string) \<times> world" where
  "applyToJob e jobId jobDescription coverLetter w =
     (case mutationFn e jobId jobDescription coverLetter w of
        (Inl err, w') \<Rightarrow> (Inl err, onError err w')
      | (Inr applicationData, w') \<Rightarrow> (Inr applicationData, onSuccess w'))"

section \<open>hooks/useHRApplications.ts\<close>

definition HR_ATS_API_URL :: string where
  "HR_ATS_API_URL = ''https://atsscore-production.up.railway.app''"

record ApplicationWithDetails =
  application_id :: string
  job_id :: string
  user_id :: string
  status :: status
  applied_at :: timestamp
  cover_letter :: "string option"
  ats_score :: "number option"
  predicted_category :: "string option"
  confidence_score :: "number option"
  ats_calculated_at :: "timestamp option"
  job_title :: string
  job_company :: string
  job_location :: string
  job_type :: string
  job_salary :: "string option"
  job_description :: string
  first_name :: string
  last_name :: string
  email :: "string option"
  phone :: "string option"
  applicant_company :: "string option"
  applicant_position :: "string option"
  resume_file_name :: "string option"
  resume_file_path :: "string option"
  resume_uploaded_at :: "timestamp option"

text \<open>The hook's React state: \<open>applications\<close>, \<open>loading\<close>, \<open>error\<close>.\<close>

record hr_state =
  applications :: "ApplicationWithDetails list"
  loading :: bool
  error :: "string option"

text \<open>What the HR operations return: \<open>{success, data?, error?}\<close>.\<close>

datatype 'a reply = Reply (success: bool) (data: "'a option") (error_message: "string option")

text \<open>\<open>err instanceof Error ? err.message : 'An error occurred'\<close>.\<close>

fun error_text :: "thrown \<Rightarrow> string" where
  "error_text (Error m) = m"
| "error_text (ErrorObject m) = ''An error occurred''"

definition updateApplicationStatus ::
  "env \<Rightarrow> string \<Rightarrow> status \<Rightarrow> world \<times> hr_state \<Rightarrow> unit reply \<times> world \<times> hr_state" where
  "updateApplicationStatus e applicationId newStatus wh =
     (case wh of (w, h) \<Rightarrow>
        (case update_status e applicationId newStatus w of
           (Some err, w1) \<Rightarrow>
             (Reply False None (Some (error_text err)),
              log_note (ConsoleError ''Error updating application status:'' err) w1, h)
         | (None, w1) \<Rightarrow>
             (Reply True None None, w1,
              h\<lparr>applications :=
                  map (\<lambda>app. if application_id app = applicationId
                             then app\<lparr>status := newStatus\<rparr> else app)
                    (applications h)\<rparr>)))"

text \<open>The \<open>catch\<close> and \<open>finally\<close> of \<open>calculateAtsScore\<close>.\<close>

definition caught ::
  "thrown \<Rightarrow> world \<Rightarrow> hr_state \<Rightarrow> score_result reply \<times> world \<times> hr_state" where
  "caught err w h =
     (Reply False None (Some (error_text err)),
      log_note (ConsoleError ''Error calculating ATS score:'' err) w, h\<lparr>loading := False\<rparr>)"

definition calculateAtsScore ::
  "env \<Rightarrow> string \<Rightarrow> string \<Rightarrow> string \<Rightarrow> world \<times> hr_state
     \<Rightarrow> score_result reply \<times> world \<times> hr_state" where
  "calculateAtsScore e applicationId jobDescription resumeFilePath wh =
     (case wh of (w, h0) \<Rightarrow>
        (let h = h0\<lparr>loading := True\<rparr> in
         case storage_download e resumeFilePath w of
           (Inl downloadError, w1) \<Rightarrow> caught downloadError w1 h
         | (Inr fileData, w1) \<Rightarrow>
             (case post e (HR_ATS_API_URL @ ''/analyze-resume'')
                     [(''job_description'', Text jobDescription), (''resume_file'', Blob fileData)] w1 of
                (NetworkFailure err, w2) \<Rightarrow> caught err w2 h
              | (Response code body, w2) \<Rightarrow>
                  if \<not> ok code then caught (Error ''Failed to calculate ATS score'') w2 h
                  else
                    (case body of
                       Inl err \<Rightarrow> caught err w2 h
                     | Inr result \<Rightarrow>
                         (case update_scores e applicationId (res_ats_score result)
                                 (res_predicted_category result) (res_confidence result) (clock e) w2 of
                            (Some updateError, w3) \<Rightarrow> caught updateError w3 h
                          | (None, w3) \<Rightarrow>
                              (Reply True (Some result) None, w3,
                               h\<lparr>applications :=
                                   map (\<lambda>app. if application_id app = applicationId
                                              then app\<lparr>ats_score := Some (res_ats_score result),
                                                     predicted_category := Some (res_predicted_category result),
                                                     confidence_score := Some (res_confidence result),
                                                     ats_calculated_at := Some (clock2 e)\<rparr>
                                              else app)
                                     (applications h),
                                 loading := False\<rparr>))))))"

definition getResumeDownloadUrl :: "env \<Rightarrow> string \<Rightarrow> world \<Rightarrow> string option \<times> world" where
  "getResumeDownloadUrl e filePath w =
     (if filePath = [] then (None, w)
      else
        (case create_signed_url e filePath 3600 w of
           (Inl err, w1) \<Rightarrow> (None, log_note (ConsoleError ''Error getting resume download URL:'' err) w1)
         | (Inr signedUrl, w1) \<Rightarrow> (Some signedUrl, w1)))"

text \<open>The calls that create an application.\<close>

fun is_insert :: "call \<Rightarrow> bool" where
  "is_insert (InsertApplication _ _ _ _) = True"
| "is_insert _ = False"


fun without_url :: "call \<Rightarrow> call" where
  "without_url (Fetch m u f) = Fetch m [] f"
| "without_url c = c"

section \<open>Example data\<close>

text \<open>
  The scenario of the spec: applicant \<open>u1\<close> has one resume, job \<open>j1\<close> is described as
  "Senior Go Engineer", the scoring service answers 200 with
  \<open>{ats_score: 87.5, predicted_category: "Software Engineering", confidence: 0.91}\<close>, and no
  call fails.
\<close>

definition demo_resume :: resume_row where
  "demo_resume =
     \<lparr>file_name = ''cv.pdf'', file_path = ''u1/cv.pdf'', resume_id = ''r1'',
      uploaded_at = Some 5, resume_user_id = Some ''u1''\<rparr>"

definition demo_world :: world where
  "demo_world =
     \<lparr>resumes_tbl = [demo_resume], applications_tbl = [],
      bucket = [(''u1/cv.pdf'', ''%PDF'')], calls = [], ui = []\<rparr>"

definition demo_result :: score_result where
  "demo_result =
     \<lparr>res_ats_score = 175 / 2, res_predicted_category = ''Software Engineering'',
      res_confidence = 91 / 100\<rparr>"

definition demo_env :: env where
  "demo_env =
     \<lparr>user = Some ''u1'', resume_lookup_error = None, existing_lookup_error = None,
      insert_outcome = Inr ''a1'', insert_time = 10, status_update_error = None,
      download_error = None, fetch = (\<lambda>url formData. Response 200 (Inr demo_result)),
      update_error = None, clock = 11, clock2 = 12, sign_outcome = Inr ''https://signed''\<rparr>"

text \<open>An application of \<open>u1\<close> to \<open>j1\<close> that is already stored and scored.\<close>

definition demo_application :: application_row where
  "demo_application =
     \<lparr>app_id = ''a0'', app_job_id = ''j1'', app_user_id = ''u1'', app_status = reviewed,
      app_applied_at = 3, app_cover_letter = Some ''Dear team'', app_ats_score = Some 40,
      app_predicted_category = Some ''Data Science'', app_confidence_score = Some (1 / 2),
      app_ats_calculated_at = Some 4\<rparr>"

text \<open>What the HR dashboard holds: two rows, the first for the application above.\<close>

definition demo_details :: ApplicationWithDetails where
  "demo_details =
     \<lparr>application_id = ''a0'', job_id = ''j1'', user_id = ''u1'', status = reviewed,
      applied_at = 3, cover_letter = Some ''Dear team'', ats_score = Some 40,
      predicted_category = Some ''Data Science'', confidence_score = Some (1 / 2),
      ats_calculated_at = Some 4, job_title = ''Go Engineer'', job_company = ''Acme'',
      job_location = ''Remote'', job_type = ''full-time'', job_salary = None,
      job_description = ''Senior Go Engineer'', first_name = ''Ada'', last_name = ''Byron'',
      email = Some ''ada@example.org'', phone = None, applicant_company = None,
      applicant_position = None, resume_file_name = Some ''cv.pdf'',
      resume_file_path = Some ''u1/cv.pdf'', resume_uploaded_at = Some 5\<rparr>"

definition demo_hr :: hr_state where
  "demo_hr =
     \<lparr>applications = [demo_details, demo_details\<lparr>application_id := ''a7''\<rparr>],
      loading = False, error = None\<rparr>"

section \<open>Lemmas on the backend client and the scoring sub-flow\<close>

lemma first_by_uploaded_at_mem: "first_by_uploaded_at rs = Some r \<Longrightarrow> r \<in> set rs"
  by (induction rs arbitrary: r) (auto split: option.splits if_splits)

text \<open>
  What \<open>calculateAndSaveAtsScore\<close> does to the tables: nothing when it throws, the four
  scoring columns of the rows with the given id when it returns.
\<close>

lemma calculateAndSaveAtsScore_frame:
  "calculateAndSaveAtsScore e i jd p w = (r, w') \<Longrightarrow>
     resumes_tbl w' = resumes_tbl w \<and> bucket w' = bucket w \<and>
     (case r of
        Inl err \<Rightarrow> applications_tbl w' = applications_tbl w
      | Inr res \<Rightarrow> applications_tbl w' =
          map (\<lambda>a. if app_id a = i
                    then set_scores (res_ats_score res) (res_predicted_category res)
                           (res_confidence res) (clock e) a
                    else a) (applications_tbl w))"
  unfolding calculateAndSaveAtsScore_def storage_download_def post_def update_scores_def
    rethrow_def log_call_def log_note_def
  by (auto split: option.splits sum.splits fetch_result.splits if_splits)

text \<open>
  With a resume found and no application found, \<open>mutationFn\<close> goes on to the insert,
  whatever the duplicate lookup reported as its error.
\<close>

lemma mutationFn_reaches_insert:
  assumes "user e = Some uid" and "uid \<noteq> []" and "resume_lookup_error e = None"
    and "first_by_uploaded_at (filter (\<lambda>r. resume_user_id r = Some uid) (resumes_tbl w)) = Some r"
    and "file_path r \<noteq> []"
    and "filter (\<lambda>a. app_job_id a = jobId \<and> app_user_id a = uid) (applications_tbl w) = []"
  shows "mutationFn e jobId jd cl w =
     (case insert_application e jobId uid pending (or_null cl)
             (log_call (SelectApplication jobId uid) (log_call (SelectLatestResume uid) w)) of
        (Inl applicationError, w3) \<Rightarrow> (Inl applicationError, w3)
      | (Inr newId, w3) \<Rightarrow>
          (case calculateAndSaveAtsScore e newId jd (file_path r) w3 of
             (Inl atsError, w4) \<Rightarrow>
               (Inr newId, log_note (ConsoleError ''ATS calculation failed:'' atsError) w4)
           | (Inr _, w4) \<Rightarrow> (Inr newId, w4)))"
  using assms
  unfolding mutationFn_def select_latest_resume_def select_application_def
  by (simp add: log_call_def split: option.splits)

lemmas client_defs = select_latest_resume_def select_application_def insert_application_def
  update_status_def update_scores_def storage_download_def create_signed_url_def post_def
  log_call_def log_note_def new_application_def set_scores_def

lemmas hook_defs = mutationFn_def calculateAndSaveAtsScore_def rethrow_def applyToJob_def
  onSuccess_def onError_def ok_def

lemmas demo_defs = demo_env_def demo_world_def demo_resume_def demo_result_def
  demo_application_def


lemma calculateAndSaveAtsScore_no_insert:
  "filter is_insert (calls (snd (calculateAndSaveAtsScore e i jd p w))) = filter is_insert (calls w)"
  unfolding calculateAndSaveAtsScore_def storage_download_def post_def update_scores_def
    rethrow_def log_call_def log_note_def
  by (auto split: option.splits sum.splits fetch_result.splits if_splits)

lemma filter_pair_scored:
  "filter (\<lambda>a. app_job_id a = j \<and> app_user_id a = u)
     (map (\<lambda>a. if app_id a = i then set_scores x c k t a else a) xs)
   = map (\<lambda>a. if app_id a = i then set_scores x c k t a else a)
       (filter (\<lambda>a. app_job_id a = j \<and> app_user_id a = u) xs)"
  by (induction xs) (auto simp: set_scores_def)


lemma mutationFn_created:
  assumes "user e = Some uid" and "uid \<noteq> []" and "resume_lookup_error e = None"
    and "first_by_uploaded_at (filter (\<lambda>r. resume_user_id r = Some uid) (resumes_tbl w)) = Some r"
    and "file_path r \<noteq> []"
    and "filter (\<lambda>a. app_job_id a = jobId \<and> app_user_id a = uid) (applications_tbl w) = []"
    and "insert_outcome e = Inr newId"
    and "calculateAndSaveAtsScore e newId jd (file_path r)
           (w\<lparr>applications_tbl := applications_tbl w
                  @ [new_application newId jobId uid pending (insert_time e) (or_null cl)],
              calls := calls w @ [SelectLatestResume uid, SelectApplication jobId uid,
                                  InsertApplication jobId uid pending (or_null cl)]\<rparr>) = (s, w4)"
  shows "mutationFn e jobId jd cl w =
           (Inr newId,
            case s of Inl atsError \<Rightarrow> log_note (ConsoleError ''ATS calculation failed:'' atsError) w4
                    | Inr _ \<Rightarrow> w4)"
  using assms(7,8)
  unfolding mutationFn_reaches_insert [OF assms(1-6)]
  by (simp add: insert_application_def log_call_def split: sum.splits)

lemma calculateAndSaveAtsScore_returns:
  "calculateAndSaveAtsScore e i jd p w = (Inr res, w') \<Longrightarrow>
     download_error e = None \<and> update_error e = None
     \<and> (\<exists>bytes code. map_of (bucket w) p = Some bytes \<and> ok code
           \<and> fetch e (ATS_API_URL @ ''/analyze-resume'')
                [(''job_description'', Text jd), (''resume_file'', Blob bytes)]
              = Response code (Inr res))"
  unfolding calculateAndSaveAtsScore_def storage_download_def post_def update_scores_def
    rethrow_def log_call_def log_note_def
  by (auto split: option.splits sum.splits fetch_result.splits if_splits)

lemma calculateAndSaveAtsScore_throws:
  "calculateAndSaveAtsScore e i jd p w = (Inl err, w') \<Longrightarrow>
     ui w' = ui w @ [ConsoleError ''Error in calculateAndSaveAtsScore:'' err]"
  unfolding calculateAndSaveAtsScore_def storage_download_def post_def update_scores_def
    rethrow_def log_call_def log_note_def
  by (auto split: option.splits sum.splits fetch_result.splits if_splits)

lemma calculateAndSaveAtsScore_fails:
  assumes "download_error e \<noteq> None \<or> map_of (bucket w) p = None
     \<or> (\<exists>bytes. map_of (bucket w) p = Some bytes
          \<and> (case fetch e (ATS_API_URL @ ''/analyze-resume'')
                     [(''job_description'', Text jd), (''resume_file'', Blob bytes)] of
                NetworkFailure _ \<Rightarrow> True
              | Response code body \<Rightarrow> \<not> ok code \<or> isl body))
     \<or> update_error e \<noteq> None"
  shows "\<exists>err w'. calculateAndSaveAtsScore e i jd p w = (Inl err, w')
            \<and> applications_tbl w' = applications_tbl w
            \<and> ui w' = ui w @ [ConsoleError ''Error in calculateAndSaveAtsScore:'' err]"
proof -
  obtain s w' where cas: "calculateAndSaveAtsScore e i jd p w = (s, w')"
    by fastforce
  show ?thesis
  proof (cases s)
    case (Inl err)
    with cas calculateAndSaveAtsScore_frame [OF cas] calculateAndSaveAtsScore_throws [of e i jd p w err w']
    show ?thesis by simp
  next
    case (Inr res)
    with cas calculateAndSaveAtsScore_returns [of e i jd p w res w']
    obtain bytes code where "download_error e = None" "update_error e = None"
      "map_of (bucket w) p = Some bytes" "ok code"
      "fetch e (ATS_API_URL @ ''/analyze-resume'')
         [(''job_description'', Text jd), (''resume_file'', Blob bytes)] = Response code (Inr res)"
      by blast
    with assms show ?thesis by auto
  qed
qed




lemmas flow_defs = storage_download_def post_def update_scores_def rethrow_def caught_def
  log_call_def log_note_def

lemma applicant_download_fails:
  assumes "download_error e \<noteq> None \<or> map_of (bucket w) p = None"
  shows "isl (fst (calculateAndSaveAtsScore e i jd p w))
     \<and> calls (snd (calculateAndSaveAtsScore e i jd p w)) = calls w @ [StorageDownload p]
     \<and> applications_tbl (snd (calculateAndSaveAtsScore e i jd p w)) = applications_tbl w"
  using assms unfolding calculateAndSaveAtsScore_def flow_defs
  by (auto split: option.splits)

lemma applicant_http_fails:
  assumes "download_error e = None" and "map_of (bucket w) p = Some bytes"
    and "case fetch e (ATS_API_URL @ ''/analyze-resume'')
                [(''job_description'', Text jd), (''resume_file'', Blob bytes)] of
           NetworkFailure _ \<Rightarrow> True | Response code _ \<Rightarrow> \<not> ok code"
  shows "isl (fst (calculateAndSaveAtsScore e i jd p w))
     \<and> calls (snd (calculateAndSaveAtsScore e i jd p w)) =
         calls w @ [StorageDownload p,
                    Fetch ''POST'' (ATS_API_URL @ ''/analyze-resume'')
                      [(''job_description'', Text jd), (''resume_file'', Blob bytes)]]
     \<and> applications_tbl (snd (calculateAndSaveAtsScore e i jd p w)) = applications_tbl w"
  using assms unfolding calculateAndSaveAtsScore_def flow_defs
  by (auto split: fetch_result.splits)

lemma applicant_succeeds:
  assumes "download_error e = None" and "map_of (bucket w) p = Some bytes"
    and "fetch e (ATS_API_URL @ ''/analyze-resume'')
                [(''job_description'', Text jd), (''resume_file'', Blob bytes)]
         = Response code (Inr res)"
    and "ok code" and "update_error e = None"
  shows "fst (calculateAndSaveAtsScore e i jd p w) = Inr res
     \<and> calls (snd (calculateAndSaveAtsScore e i jd p w)) =
         calls w @ [StorageDownload p,
                    Fetch ''POST'' (ATS_API_URL @ ''/analyze-resume'')
                      [(''job_description'', Text jd), (''resume_file'', Blob bytes)],
                    UpdateScores i (res_ats_score res) (res_predicted_category res)
                      (res_confidence res) (clock e)]
     \<and> applications_tbl (snd (calculateAndSaveAtsScore e i jd p w)) =
         map (\<lambda>a. if app_id a = i
                   then set_scores (res_ats_score res) (res_predicted_category res)
                          (res_confidence res) (clock e) a
                   else a) (applications_tbl w)"
  using assms unfolding calculateAndSaveAtsScore_def flow_defs
  by simp

lemma hr_download_fails:
  assumes "download_error e \<noteq> None \<or> map_of (bucket w) p = None"
  shows "\<not> success (fst (calculateAtsScore e i jd p (w, h)))
     \<and> calls (fst (snd (calculateAtsScore e i jd p (w, h)))) = calls w @ [StorageDownload p]
     \<and> applications_tbl (fst (snd (calculateAtsScore e i jd p (w, h)))) = applications_tbl w"
  using assms unfolding calculateAtsScore_def flow_defs
  by (auto split: option.splits)

lemma hr_http_fails:
  assumes "download_error e = None" and "map_of (bucket w) p = Some bytes"
    and "case fetch e (HR_ATS_API_URL @ ''/analyze-resume'')
                [(''job_description'', Text jd), (''resume_file'', Blob bytes)] of
           NetworkFailure _ \<Rightarrow> True | Response code _ \<Rightarrow> \<not> ok code"
  shows "\<not> success (fst (calculateAtsScore e i jd p (w, h)))
     \<and> calls (fst (snd (calculateAtsScore e i jd p (w, h)))) =
         calls w @ [StorageDownload p,
                    Fetch ''POST'' (HR_ATS_API_URL @ ''/analyze-resume'')
                      [(''job_description'', Text jd), (''resume_file'', Blob bytes)]]
     \<and> applications_tbl (fst (snd (calculateAtsScore e i jd p (w, h)))) = applications_tbl w"
  using assms unfolding calculateAtsScore_def flow_defs
  by (auto split: fetch_result.splits)

lemma hr_succeeds:
  assumes "download_error e = None" and "map_of (bucket w) p = Some bytes"
    and "fetch e (HR_ATS_API_URL @ ''/analyze-resume'')
                [(''job_description'', Text jd), (''resume_file'', Blob bytes)]
         = Response code (Inr res)"
    and "ok code" and "update_error e = None"
  shows "fst (calculateAtsScore e i jd p (w, h)) = Reply True (Some res) None
     \<and> calls (fst (snd (calculateAtsScore e i jd p (w, h)))) =
         calls w @ [StorageDownload p,
                    Fetch ''POST'' (HR_ATS_API_URL @ ''/analyze-resume'')
                      [(''job_description'', Text jd), (''resume_file'', Blob bytes)],
                    UpdateScores i (res_ats_score res) (res_predicted_category res)
                      (res_confidence res) (clock e)]
     \<and> applications_tbl (fst (snd (calculateAtsScore e i jd p (w, h)))) =
         map (\<lambda>a. if app_id a = i
                   then set_scores (res_ats_score res) (res_predicted_category res)
                          (res_confidence res) (clock e) a
                   else a) (applications_tbl w)"
  using assms unfolding calculateAtsScore_def flow_defs
  by simp








lemma same_persisted_state_aux:
  assumes "\<forall>formData. fetch e (HR_ATS_API_URL @ ''/analyze-resume'') formData
                      = fetch e (ATS_API_URL @ ''/analyze-resume'') formData"
  shows "case calculateAtsScore e i jd p (w, h) of (r, w1, h1) \<Rightarrow>
          (case calculateAndSaveAtsScore e i jd p w of (s, w2) \<Rightarrow>
             applications_tbl w1 = applications_tbl w2
           \<and> resumes_tbl w1 = resumes_tbl w2
           \<and> bucket w1 = bucket w2
           \<and> map without_url (calls w1) = map without_url (calls w2)
           \<and> data r = (case s of Inl _ \<Rightarrow> None | Inr res \<Rightarrow> Some res)
           \<and> success r = (\<not> isl s))"
  unfolding calculateAtsScore_def calculateAndSaveAtsScore_def flow_defs Let_def
  by (simp add: assms split: option.splits sum.splits fetch_result.splits)

lemma same_persisted_state:
  assumes "\<forall>formData. fetch e (HR_ATS_API_URL @ ''/analyze-resume'') formData
                      = fetch e (ATS_API_URL @ ''/analyze-resume'') formData"
  shows "applications_tbl (fst (snd (calculateAtsScore e i jd p (w, h))))
           = applications_tbl (snd (calculateAndSaveAtsScore e i jd p w))
       \<and> resumes_tbl (fst (snd (calculateAtsScore e i jd p (w, h))))
           = resumes_tbl (snd (calculateAndSaveAtsScore e i jd p w))
       \<and> bucket (fst (snd (calculateAtsScore e i jd p (w, h))))
           = bucket (snd (calculateAndSaveAtsScore e i jd p w))
       \<and> map without_url (calls (fst (snd (calculateAtsScore e i jd p (w, h)))))
           = map without_url (calls (snd (calculateAndSaveAtsScore e i jd p w)))
       \<and> data (fst (calculateAtsScore e i jd p (w, h)))
           = (case fst (calculateAndSaveAtsScore e i jd p w) of Inl _ \<Rightarrow> None | Inr res \<Rightarrow> Some res)
       \<and> success (fst (calculateAtsScore e i jd p (w, h)))
           = (\<not> isl (fst (calculateAndSaveAtsScore e i jd p w)))"
  using same_persisted_state_aux [OF assms, of i jd p w h]
  by (simp add: split_beta)





section \<open>Submitting an application\<close>

text \<open>
  C2. An applicant (a logged-in user) none of whose stored resumes has a non-empty file
  reference gets \<open>RESUME_REQUIRED\<close>: \<open>mutationFn\<close> throws it after the resume lookup, the
  only call it has made by then, so the duplicate check and the insert never run, the
  tables and the bucket are as before, and \<open>applyToJob\<close> shows the "Resume Required" toast.
  This holds whatever applications exist and whichever calls would fail.
\<close>

theorem resume_required:
  assumes "user e = Some uid" and "uid \<noteq> []"
    and "\<forall>r \<in> set (resumes_tbl w). resume_user_id r = Some uid \<longrightarrow> file_path r = []"
  shows "mutationFn e jobId jobDescription coverLetter w =
           (Inl (Error ''RESUME_REQUIRED''), w\<lparr>calls := calls w @ [SelectLatestResume uid]\<rparr>)
       \<and> applyToJob e jobId jobDescription coverLetter w =
           (Inl (Error ''RESUME_REQUIRED''),
            w\<lparr>calls := calls w @ [SelectLatestResume uid],
              ui := ui w @ [ToastDestructive ''Resume Required''
                              ''Please first upload your resume before applying to jobs.'']\<rparr>)"
proof -
  have sel: "\<And>r. first_by_uploaded_at
                 (filter (\<lambda>r. resume_user_id r = Some uid) (resumes_tbl w)) = Some r
               \<Longrightarrow> file_path r = []"
    using assms(3) first_by_uploaded_at_mem by fastforce
  have m: "mutationFn e jobId jobDescription coverLetter w =
           (Inl (Error ''RESUME_REQUIRED''), w\<lparr>calls := calls w @ [SelectLatestResume uid]\<rparr>)"
    using assms(1,2) sel
    by (auto simp: mutationFn_def select_latest_resume_def log_call_def split: option.splits)
  show ?thesis
    by (simp add: m applyToJob_def onError_def log_note_def)
qed

theorem resume_required_witness:
  "user demo_env = Some ''u1'' \<and> ''u1'' \<noteq> []
   \<and> map file_path
        (resumes_tbl (demo_world\<lparr>resumes_tbl := [demo_resume\<lparr>file_path := []\<rparr>],
                                 applications_tbl := [demo_application]\<rparr>)) = [[]]
   \<and> mutationFn demo_env ''j1'' ''Senior Go Engineer'' None
        (demo_world\<lparr>resumes_tbl := [demo_resume\<lparr>file_path := []\<rparr>],
                    applications_tbl := [demo_application]\<rparr>) =
       (Inl (Error ''RESUME_REQUIRED''),
        demo_world\<lparr>resumes_tbl := [demo_resume\<lparr>file_path := []\<rparr>],
                   applications_tbl := [demo_application],
                   calls := [SelectLatestResume ''u1'']\<rparr>)"
  using resume_required [where e = demo_env and uid = "''u1''" and jobId = "''j1''"
      and jobDescription = "''Senior Go Engineer''" and coverLetter = None
      and w = "demo_world\<lparr>resumes_tbl := [demo_resume\<lparr>file_path := []\<rparr>],
                          applications_tbl := [demo_application]\<rparr>"]
  by (simp add: demo_env_def demo_world_def)

text \<open>
  C1, as the code has it. An applicant whose latest resume is found and has a non-empty file
  reference, and who has no application for the job, gets exactly one application created
  when the insert succeeds: the table grows by one row, the one row of the pair has the id
  the backend assigned, status \<open>pending\<close> and the cover letter \<open>coverLetter || null\<close> (the
  supplied one, or null when none or an empty one is supplied); it is the row as inserted,
  with all four scoring columns null, or that row with the four scoring columns set by the
  scoring sub-flow of the same call. Exactly one insert call is made. The call returns the
  new id and ends on the success toast whatever the download, the scoring service and the
  write-back do.
\<close>

theorem submit_creates_one:
  assumes "user e = Some uid" and "uid \<noteq> []" and "resume_lookup_error e = None"
    and "first_by_uploaded_at (filter (\<lambda>r. resume_user_id r = Some uid) (resumes_tbl w)) = Some r"
    and "file_path r \<noteq> []"
    and "filter (\<lambda>a. app_job_id a = jobId \<and> app_user_id a = uid) (applications_tbl w) = []"
    and "insert_outcome e = Inr newId"
  shows "fst (applyToJob e jobId jd cl w) = Inr newId
     \<and> length (applications_tbl (snd (applyToJob e jobId jd cl w))) = Suc (length (applications_tbl w))
     \<and> (\<exists>a. filter (\<lambda>a. app_job_id a = jobId \<and> app_user_id a = uid)
               (applications_tbl (snd (applyToJob e jobId jd cl w))) = [a]
            \<and> app_id a = newId \<and> app_status a = pending \<and> app_cover_letter a = or_null cl
            \<and> (a = new_application newId jobId uid pending (insert_time e) (or_null cl)
               \<or> (\<exists>x c k. a = set_scores x c k (clock e)
                                (new_application newId jobId uid pending (insert_time e) (or_null cl)))))
     \<and> filter is_insert (calls (snd (applyToJob e jobId jd cl w)))
        = filter is_insert (calls w) @ [InsertApplication jobId uid pending (or_null cl)]
     \<and> last (ui (snd (applyToJob e jobId jd cl w))) =
         Toast ''Application submitted successfully!'' ''Your ATS score is being calculated...''"
proof -
  let ?na = "new_application newId jobId uid pending (insert_time e) (or_null cl)"
  let ?w3 = "w\<lparr>applications_tbl := applications_tbl w @ [?na],
               calls := calls w @ [SelectLatestResume uid, SelectApplication jobId uid,
                                   InsertApplication jobId uid pending (or_null cl)]\<rparr>"
  let ?pair = "\<lambda>a. app_job_id a = jobId \<and> app_user_id a = uid"
  obtain s w4 where cas: "calculateAndSaveAtsScore e newId jd (file_path r) ?w3 = (s, w4)"
    by fastforce
  let ?w5 = "case s of Inl atsError \<Rightarrow> log_note (ConsoleError ''ATS calculation failed:'' atsError) w4
                     | Inr _ \<Rightarrow> w4"
  have m: "mutationFn e jobId jd cl w = (Inr newId, ?w5)"
    by (rule mutationFn_created [OF assms cas])
  have a: "applyToJob e jobId jd cl w = (Inr newId, onSuccess ?w5)"
    by (simp add: applyToJob_def m)
  have tbl5: "applications_tbl (onSuccess ?w5) = applications_tbl w4"
    by (simp add: onSuccess_def log_note_def split: sum.splits)
  have ui5: "last (ui (onSuccess ?w5)) =
      Toast ''Application submitted successfully!'' ''Your ATS score is being calculated...''"
    by (simp add: onSuccess_def log_note_def)
  have calls5: "calls (onSuccess ?w5) = calls w4"
    by (simp add: onSuccess_def log_note_def split: sum.splits)
  have ins: "filter is_insert (calls w4)
      = filter is_insert (calls w) @ [InsertApplication jobId uid pending (or_null cl)]"
    using calculateAndSaveAtsScore_no_insert [of e newId jd "file_path r" ?w3] cas by simp
  have na: "filter ?pair (applications_tbl w @ [?na]) = [?na]"
    using assms(6) by (simp add: new_application_def)
  have fr: "case s of
        Inl err \<Rightarrow> applications_tbl w4 = applications_tbl w @ [?na]
      | Inr res \<Rightarrow> applications_tbl w4 =
          map (\<lambda>a. if app_id a = newId
                    then set_scores (res_ats_score res) (res_predicted_category res)
                           (res_confidence res) (clock e) a
                    else a) (applications_tbl w @ [?na])"
    using calculateAndSaveAtsScore_frame [OF cas] by (simp split: sum.splits)
  have len: "length (applications_tbl w4) = Suc (length (applications_tbl w))"
    using fr by (cases s) simp_all
  have row: "\<exists>a. filter ?pair (applications_tbl w4) = [a]
            \<and> app_id a = newId \<and> app_status a = pending \<and> app_cover_letter a = or_null cl
            \<and> (a = ?na
               \<or> (\<exists>x c k. a = set_scores x c k (clock e) ?na))"
  proof (cases s)
    case (Inl err)
    then have "filter ?pair (applications_tbl w4) = [?na]"
      using fr na by simp
    then show ?thesis
      by (simp add: new_application_def)
  next
    case (Inr res)
    let ?a = "set_scores (res_ats_score res) (res_predicted_category res)
                (res_confidence res) (clock e) ?na"
    have "filter ?pair (applications_tbl w4) = [?a]"
      using Inr fr na by (simp only: sum.case filter_pair_scored) (simp add: new_application_def)
    moreover have "app_id ?a = newId" "app_status ?a = pending" "app_cover_letter ?a = or_null cl"
      by (simp_all add: new_application_def set_scores_def)
    ultimately show ?thesis
      by blast
  qed
  show ?thesis
    unfolding a fst_conv snd_conv tbl5 calls5
    using len row ins ui5 by blast
qed

theorem submit_creates_one_witness:
  "user demo_env = Some ''u1''
   \<and> first_by_uploaded_at (filter (\<lambda>r. resume_user_id r = Some ''u1'') (resumes_tbl demo_world))
       = Some demo_resume
   \<and> file_path demo_resume \<noteq> []
   \<and> filter (\<lambda>a. app_job_id a = ''j1'' \<and> app_user_id a = ''u1'') (applications_tbl demo_world) = []
   \<and> insert_outcome demo_env = Inr ''a1''
   \<and> fst (applyToJob demo_env ''j1'' ''Senior Go Engineer'' (Some ''Hello'') demo_world) = Inr ''a1''
   \<and> length (applications_tbl
         (snd (applyToJob demo_env ''j1'' ''Senior Go Engineer'' (Some ''Hello'') demo_world))) = 1"
proof -
  have h: "user demo_env = Some ''u1''" "''u1'' \<noteq> []" "resume_lookup_error demo_env = None"
    "first_by_uploaded_at (filter (\<lambda>r. resume_user_id r = Some ''u1'') (resumes_tbl demo_world))
       = Some demo_resume"
    "file_path demo_resume \<noteq> []"
    "filter (\<lambda>a. app_job_id a = ''j1'' \<and> app_user_id a = ''u1'') (applications_tbl demo_world) = []"
    "insert_outcome demo_env = Inr ''a1''"
    by (simp_all add: demo_defs)
  have "applications_tbl demo_world = []"
    by (simp add: demo_defs)
  with h submit_creates_one [OF h, of "''Senior Go Engineer''" "Some ''Hello''"]
  show ?thesis by simp
qed

text \<open>
  C1 as stated fails twice. A supplied cover letter that is the empty string is stored as
  null, not as supplied. And with a valid resume and no existing application, a failing
  insert creates no application and the call throws the backend's error.
\<close>

theorem submit_creates_one_counterexample:
  "first_by_uploaded_at (filter (\<lambda>r. resume_user_id r = Some ''u1'') (resumes_tbl demo_world))
     = Some demo_resume
   \<and> file_path demo_resume \<noteq> []
   \<and> applications_tbl demo_world = []
   \<and> map app_cover_letter
       (applications_tbl (snd (applyToJob demo_env ''j1'' ''Senior Go Engineer'' (Some []) demo_world)))
     = [None]
   \<and> fst (applyToJob (demo_env\<lparr>insert_outcome := Inl (ErrorObject ''connection lost'')\<rparr>)
            ''j1'' ''Senior Go Engineer'' None demo_world) = Inl (ErrorObject ''connection lost'')
   \<and> applications_tbl
       (snd (applyToJob (demo_env\<lparr>insert_outcome := Inl (ErrorObject ''connection lost'')\<rparr>)
               ''j1'' ''Senior Go Engineer'' None demo_world)) = []"
  by (simp add: client_defs hook_defs demo_defs)

text \<open>
  C3, as the code has it. For a pair with exactly one application, when the applicant passes
  the resume check and the duplicate lookup answers with that application, the call throws
  "You have already applied to this job!" and shows the "Already Applied" toast; it has made
  the two lookups and no write, the tables and the bucket are as before, and exactly one
  application of the pair exists afterwards.
\<close>

theorem duplicate_rejected:
  assumes "user e = Some uid" and "uid \<noteq> []" and "resume_lookup_error e = None"
    and "first_by_uploaded_at (filter (\<lambda>r. resume_user_id r = Some uid) (resumes_tbl w)) = Some r"
    and "file_path r \<noteq> []"
    and "existing_lookup_error e = None"
    and "filter (\<lambda>a. app_job_id a = jobId \<and> app_user_id a = uid) (applications_tbl w) = [a]"
  shows "applyToJob e jobId jd cl w =
           (Inl (Error ''You have already applied to this job!''),
            w\<lparr>calls := calls w @ [SelectLatestResume uid, SelectApplication jobId uid],
              ui := ui w @ [ToastDestructive ''Already Applied''
                              ''You have already applied to this job!'']\<rparr>)
       \<and> length (filter (\<lambda>a. app_job_id a = jobId \<and> app_user_id a = uid)
                   (applications_tbl (snd (applyToJob e jobId jd cl w)))) = 1"
proof -
  have m: "mutationFn e jobId jd cl w =
      (Inl (Error ''You have already applied to this job!''),
       w\<lparr>calls := calls w @ [SelectLatestResume uid, SelectApplication jobId uid]\<rparr>)"
    using assms
    by (simp add: mutationFn_def select_latest_resume_def select_application_def log_call_def)
  show ?thesis
    using assms(7) by (simp add: applyToJob_def m onError_def log_note_def)
qed

theorem duplicate_rejected_witness:
  "user demo_env = Some ''u1''
   \<and> existing_lookup_error demo_env = None
   \<and> filter (\<lambda>a. app_job_id a = ''j1'' \<and> app_user_id a = ''u1'')
        (applications_tbl (demo_world\<lparr>applications_tbl := [demo_application]\<rparr>))
      = [demo_application]
   \<and> fst (applyToJob demo_env ''j1'' ''Senior Go Engineer'' None
            (demo_world\<lparr>applications_tbl := [demo_application]\<rparr>))
      = Inl (Error ''You have already applied to this job!'')
   \<and> applications_tbl (snd (applyToJob demo_env ''j1'' ''Senior Go Engineer'' None
                               (demo_world\<lparr>applications_tbl := [demo_application]\<rparr>)))
      = [demo_application]"
proof -
  let ?w = "demo_world\<lparr>applications_tbl := [demo_application]\<rparr>"
  have h: "user demo_env = Some ''u1''" "''u1'' \<noteq> []" "resume_lookup_error demo_env = None"
    "first_by_uploaded_at (filter (\<lambda>r. resume_user_id r = Some ''u1'') (resumes_tbl ?w))
       = Some demo_resume"
    "file_path demo_resume \<noteq> []"
    "existing_lookup_error demo_env = None"
    "filter (\<lambda>a. app_job_id a = ''j1'' \<and> app_user_id a = ''u1'') (applications_tbl ?w)
       = [demo_application]"
    by (simp_all add: demo_defs)
  from h duplicate_rejected [OF h, of "''Senior Go Engineer''" None]
  show ?thesis by simp
qed

text \<open>
  C3 as stated fails where the resume check, which comes first, does not pass: with an
  application of the pair stored and no resume on file the call throws \<open>RESUME_REQUIRED\<close>,
  not the duplicate error.
\<close>

theorem duplicate_rejected_counterexample:
  "filter (\<lambda>a. app_job_id a = ''j1'' \<and> app_user_id a = ''u1'')
     (applications_tbl (demo_world\<lparr>resumes_tbl := [], applications_tbl := [demo_application]\<rparr>))
     = [demo_application]
   \<and> fst (applyToJob demo_env ''j1'' ''Senior Go Engineer'' None
            (demo_world\<lparr>resumes_tbl := [], applications_tbl := [demo_application]\<rparr>))
     = Inl (Error ''RESUME_REQUIRED'')
   \<and> Error ''RESUME_REQUIRED'' \<noteq> Error ''You have already applied to this job!''"
  by (simp add: client_defs hook_defs demo_defs)

text \<open>
  C4. When \<open>applyToJob\<close> has created the application and the scoring sub-flow fails at any
  step (the download: a storage error or no such file; the HTTP call: a network failure, a
  status outside 200..299 or a body that does not parse; the write-back: a backend error),
  the call still returns the new id and ends on the success toast; the table is the old one
  plus the row as inserted (status \<open>pending\<close>, the four scoring columns null); the error is
  only logged on the console, twice.
\<close>

theorem scoring_failure_isolated:
  assumes "user e = Some uid" and "uid \<noteq> []" and "resume_lookup_error e = None"
    and "first_by_uploaded_at (filter (\<lambda>r. resume_user_id r = Some uid) (resumes_tbl w)) = Some r"
    and "file_path r \<noteq> []"
    and "filter (\<lambda>a. app_job_id a = jobId \<and> app_user_id a = uid) (applications_tbl w) = []"
    and "insert_outcome e = Inr newId"
    and "download_error e \<noteq> None \<or> map_of (bucket w) (file_path r) = None
     \<or> (\<exists>bytes. map_of (bucket w) (file_path r) = Some bytes
          \<and> (case fetch e (ATS_API_URL @ ''/analyze-resume'')
                     [(''job_description'', Text jd), (''resume_file'', Blob bytes)] of
                NetworkFailure _ \<Rightarrow> True
              | Response code body \<Rightarrow> \<not> ok code \<or> isl body))
     \<or> update_error e \<noteq> None"
  shows "fst (applyToJob e jobId jd cl w) = Inr newId
     \<and> applications_tbl (snd (applyToJob e jobId jd cl w)) =
         applications_tbl w @ [new_application newId jobId uid pending (insert_time e) (or_null cl)]
     \<and> (\<exists>err. ui (snd (applyToJob e jobId jd cl w)) =
           ui w @ [ConsoleError ''Error in calculateAndSaveAtsScore:'' err,
                   ConsoleError ''ATS calculation failed:'' err,
                   InvalidateQueries,
                   Toast ''Application submitted successfully!''
                     ''Your ATS score is being calculated...''])"
proof -
  let ?na = "new_application newId jobId uid pending (insert_time e) (or_null cl)"
  let ?w3 = "w\<lparr>applications_tbl := applications_tbl w @ [?na],
               calls := calls w @ [SelectLatestResume uid, SelectApplication jobId uid,
                                   InsertApplication jobId uid pending (or_null cl)]\<rparr>"
  have "bucket ?w3 = bucket w"
    by simp
  with assms(8) calculateAndSaveAtsScore_fails [of e ?w3 "file_path r" jd newId]
  obtain err w4 where cas: "calculateAndSaveAtsScore e newId jd (file_path r) ?w3 = (Inl err, w4)"
    and tbl: "applications_tbl w4 = applications_tbl w @ [?na]"
    and shown: "ui w4 = ui w @ [ConsoleError ''Error in calculateAndSaveAtsScore:'' err]"
    by auto
  have "mutationFn e jobId jd cl w =
      (Inr newId, log_note (ConsoleError ''ATS calculation failed:'' err) w4)"
    using mutationFn_created [OF assms(1-7) cas] by simp
  then have "applyToJob e jobId jd cl w =
      (Inr newId, onSuccess (log_note (ConsoleError ''ATS calculation failed:'' err) w4))"
    by (simp add: applyToJob_def)
  then show ?thesis
    using tbl shown by (simp add: onSuccess_def log_note_def)
qed

theorem scoring_failure_isolated_witness:
  "map_of (bucket demo_world) (file_path demo_resume) = Some ''%PDF''
   \<and> \<not> ok 500
   \<and> fst (applyToJob
            (demo_env\<lparr>fetch := (\<lambda>url formData. Response 500 (Inl (Error ''Unexpected token'')))\<rparr>)
            ''j1'' ''Senior Go Engineer'' (Some ''Hello'') demo_world) = Inr ''a1''
   \<and> applications_tbl
        (snd (applyToJob
                (demo_env\<lparr>fetch := (\<lambda>url formData. Response 500 (Inl (Error ''Unexpected token'')))\<rparr>)
                ''j1'' ''Senior Go Engineer'' (Some ''Hello'') demo_world))
      = [new_application ''a1'' ''j1'' ''u1'' pending 10 (Some ''Hello'')]"
proof -
  let ?e = "demo_env\<lparr>fetch := (\<lambda>url formData. Response 500 (Inl (Error ''Unexpected token'')))\<rparr>"
  have h: "user ?e = Some ''u1''" "''u1'' \<noteq> []" "resume_lookup_error ?e = None"
    "first_by_uploaded_at (filter (\<lambda>r. resume_user_id r = Some ''u1'') (resumes_tbl demo_world))
       = Some demo_resume"
    "file_path demo_resume \<noteq> []"
    "filter (\<lambda>a. app_job_id a = ''j1'' \<and> app_user_id a = ''u1'') (applications_tbl demo_world) = []"
    "insert_outcome ?e = Inr ''a1''"
    by (simp_all add: demo_defs)
  have f: "download_error ?e \<noteq> None \<or> map_of (bucket demo_world) (file_path demo_resume) = None
     \<or> (\<exists>bytes. map_of (bucket demo_world) (file_path demo_resume) = Some bytes
          \<and> (case fetch ?e (ATS_API_URL @ ''/analyze-resume'')
                     [(''job_description'', Text ''Senior Go Engineer''), (''resume_file'', Blob bytes)] of
                NetworkFailure _ \<Rightarrow> True
              | Response code body \<Rightarrow> \<not> ok code \<or> isl body))
     \<or> update_error ?e \<noteq> None"
    by (simp add: demo_defs ok_def)
  have g: "map_of (bucket demo_world) (file_path demo_resume) = Some ''%PDF''" "\<not> ok 500"
    "applications_tbl demo_world = []" "insert_time ?e = 10"
    by (simp_all add: demo_defs ok_def)
  from g scoring_failure_isolated [OF h f, where cl = "Some ''Hello''"]
  show ?thesis by simp
qed

text \<open>
  C5, as the code has it. When the resume lookup fails, \<open>mutationFn\<close> throws
  \<open>RESUME_REQUIRED\<close>: the lookup's error is part of the resume guard and is not passed on.
  The call has made that one lookup, no application is created, and the "Resume Required"
  toast is shown.
\<close>

theorem lookup_failure_is_resume_required:
  assumes "user e = Some uid" and "uid \<noteq> []" and "resume_lookup_error e = Some err"
  shows "applyToJob e jobId jd cl w =
           (Inl (Error ''RESUME_REQUIRED''),
            w\<lparr>calls := calls w @ [SelectLatestResume uid],
              ui := ui w @ [ToastDestructive ''Resume Required''
                              ''Please first upload your resume before applying to jobs.'']\<rparr>)"
  using assms
  by (simp add: applyToJob_def mutationFn_def select_latest_resume_def log_call_def
      onError_def log_note_def)

theorem lookup_failure_is_resume_required_witness:
  "user demo_env = Some ''u1''
   \<and> fst (applyToJob (demo_env\<lparr>resume_lookup_error := Some (Error ''Failed to fetch'')\<rparr>)
            ''j1'' ''Senior Go Engineer'' None demo_world) = Inl (Error ''RESUME_REQUIRED'')
   \<and> applications_tbl
        (snd (applyToJob (demo_env\<lparr>resume_lookup_error := Some (Error ''Failed to fetch'')\<rparr>)
                ''j1'' ''Senior Go Engineer'' None demo_world)) = []"
proof -
  let ?e = "demo_env\<lparr>resume_lookup_error := Some (Error ''Failed to fetch'')\<rparr>"
  have h: "user ?e = Some ''u1''" "''u1'' \<noteq> []"
    "resume_lookup_error ?e = Some (Error ''Failed to fetch'')"
    by (simp_all add: demo_defs)
  have "user demo_env = Some ''u1''" "applications_tbl demo_world = []"
    by (simp_all add: demo_defs)
  with lookup_failure_is_resume_required [OF h, of "''j1''" "''Senior Go Engineer''" None demo_world]
  show ?thesis by simp
qed

text \<open>
  C5 as stated fails: with a valid resume stored and the resume lookup failing, the error
  thrown is \<open>RESUME_REQUIRED\<close> and the toast is "Resume Required", not a generic failure.
\<close>

theorem lookup_failure_counterexample:
  "first_by_uploaded_at (filter (\<lambda>r. resume_user_id r = Some ''u1'') (resumes_tbl demo_world))
     = Some demo_resume
   \<and> file_path demo_resume \<noteq> []
   \<and> applyToJob (demo_env\<lparr>resume_lookup_error := Some (ErrorObject ''Failed to fetch'')\<rparr>)
        ''j1'' ''Senior Go Engineer'' None demo_world
     = (Inl (Error ''RESUME_REQUIRED''),
        demo_world\<lparr>calls := [SelectLatestResume ''u1''],
                   ui := [ToastDestructive ''Resume Required''
                            ''Please first upload your resume before applying to jobs.'']\<rparr>)"
  by (simp add: client_defs hook_defs demo_defs)

text \<open>
  What the amended statements on duplicates and on failing lookups leave out: the error of
  the duplicate lookup is never read. With an
  application of the pair stored and that lookup failing, \<open>applyToJob\<close> inserts a second
  application of the pair and reports success.
\<close>

lemma duplicate_lookup_error_ignored:
  "fst (applyToJob (demo_env\<lparr>existing_lookup_error := Some (ErrorObject ''Failed to fetch'')\<rparr>)
          ''j1'' ''Senior Go Engineer'' None
          (demo_world\<lparr>applications_tbl := [demo_application]\<rparr>)) = Inr ''a1''
   \<and> map app_id
        (filter (\<lambda>a. app_job_id a = ''j1'' \<and> app_user_id a = ''u1'')
           (applications_tbl
              (snd (applyToJob
                      (demo_env\<lparr>existing_lookup_error := Some (ErrorObject ''Failed to fetch'')\<rparr>)
                      ''j1'' ''Senior Go Engineer'' None
                      (demo_world\<lparr>applications_tbl := [demo_application]\<rparr>)))))
      = [''a0'', ''a1'']"
  by (simp add: client_defs hook_defs demo_defs)

section \<open>The scoring sub-flow\<close>



text \<open>
  C7. Both call sites run the same sequence. The download comes first; when it fails (a
  storage error or no such file) the run fails and the download is the only call made.
  Otherwise one POST goes to \<open>/analyze-resume\<close> under the site's base URL, with a form of
  exactly two fields, \<open>job_description\<close> (the text) and \<open>resume_file\<close> (the bytes); a
  network failure or a status outside 200..299 makes the run fail with no second POST and
  no write. When the response is 2xx and parses and the write succeeds, the call that
  follows writes the parsed triple and the clock reading to the rows with the given
  application id, and the run returns the parsed result.
\<close>

theorem scoring_sequence:
  "(download_error e \<noteq> None \<or> map_of (bucket w) p = None \<longrightarrow>
      isl (fst (calculateAndSaveAtsScore e i jd p w))
      \<and> calls (snd (calculateAndSaveAtsScore e i jd p w)) = calls w @ [StorageDownload p]
      \<and> \<not> success (fst (calculateAtsScore e i jd p (w, h)))
      \<and> calls (fst (snd (calculateAtsScore e i jd p (w, h)))) = calls w @ [StorageDownload p])
   \<and> (download_error e = None \<and> map_of (bucket w) p = Some bytes \<longrightarrow>
        ((case fetch e (ATS_API_URL @ ''/analyze-resume'')
                 [(''job_description'', Text jd), (''resume_file'', Blob bytes)] of
            NetworkFailure _ \<Rightarrow> True | Response code _ \<Rightarrow> \<not> ok code) \<longrightarrow>
           isl (fst (calculateAndSaveAtsScore e i jd p w))
           \<and> calls (snd (calculateAndSaveAtsScore e i jd p w)) =
               calls w @ [StorageDownload p,
                          Fetch ''POST'' (ATS_API_URL @ ''/analyze-resume'')
                            [(''job_description'', Text jd), (''resume_file'', Blob bytes)]]
           \<and> applications_tbl (snd (calculateAndSaveAtsScore e i jd p w)) = applications_tbl w)
        \<and> ((case fetch e (HR_ATS_API_URL @ ''/analyze-resume'')
                   [(''job_description'', Text jd), (''resume_file'', Blob bytes)] of
              NetworkFailure _ \<Rightarrow> True | Response code _ \<Rightarrow> \<not> ok code) \<longrightarrow>
           \<not> success (fst (calculateAtsScore e i jd p (w, h)))
           \<and> calls (fst (snd (calculateAtsScore e i jd p (w, h)))) =
               calls w @ [StorageDownload p,
                          Fetch ''POST'' (HR_ATS_API_URL @ ''/analyze-resume'')
                            [(''job_description'', Text jd), (''resume_file'', Blob bytes)]]
           \<and> applications_tbl (fst (snd (calculateAtsScore e i jd p (w, h)))) = applications_tbl w)
        \<and> (\<forall>code res.
              fetch e (ATS_API_URL @ ''/analyze-resume'')
                [(''job_description'', Text jd), (''resume_file'', Blob bytes)]
                = Response code (Inr res) \<and> ok code \<and> update_error e = None \<longrightarrow>
              fst (calculateAndSaveAtsScore e i jd p w) = Inr res
              \<and> calls (snd (calculateAndSaveAtsScore e i jd p w)) =
                  calls w @ [StorageDownload p,
                             Fetch ''POST'' (ATS_API_URL @ ''/analyze-resume'')
                               [(''job_description'', Text jd), (''resume_file'', Blob bytes)],
                             UpdateScores i (res_ats_score res) (res_predicted_category res)
                               (res_confidence res) (clock e)]
              \<and> applications_tbl (snd (calculateAndSaveAtsScore e i jd p w)) =
                  map (\<lambda>a. if app_id a = i
                            then set_scores (res_ats_score res) (res_predicted_category res)
                                   (res_confidence res) (clock e) a
                            else a) (applications_tbl w))
        \<and> (\<forall>code res.
              fetch e (HR_ATS_API_URL @ ''/analyze-resume'')
                [(''job_description'', Text jd), (''resume_file'', Blob bytes)]
                = Response code (Inr res) \<and> ok code \<and> update_error e = None \<longrightarrow>
              fst (calculateAtsScore e i jd p (w, h)) = Reply True (Some res) None
              \<and> calls (fst (snd (calculateAtsScore e i jd p (w, h)))) =
                  calls w @ [StorageDownload p,
                             Fetch ''POST'' (HR_ATS_API_URL @ ''/analyze-resume'')
                               [(''job_description'', Text jd), (''resume_file'', Blob bytes)],
                             UpdateScores i (res_ats_score res) (res_predicted_category res)
                               (res_confidence res) (clock e)]
              \<and> applications_tbl (fst (snd (calculateAtsScore e i jd p (w, h)))) =
                  map (\<lambda>a. if app_id a = i
                            then set_scores (res_ats_score res) (res_predicted_category res)
                                   (res_confidence res) (clock e) a
                            else a) (applications_tbl w)))"
  apply (intro conjI impI allI; (elim conjE)?)
  subgoal by (rule applicant_download_fails [THEN conjunct1]; assumption)
  subgoal by (rule applicant_download_fails [THEN conjunct2, THEN conjunct1]; assumption)
  subgoal by (rule hr_download_fails [THEN conjunct1]; assumption)
  subgoal by (rule hr_download_fails [THEN conjunct2, THEN conjunct1]; assumption)
  subgoal by (rule applicant_http_fails [THEN conjunct1]; assumption)
  subgoal by (rule applicant_http_fails [THEN conjunct2, THEN conjunct1]; assumption)
  subgoal by (rule applicant_http_fails [THEN conjunct2, THEN conjunct2]; assumption)
  subgoal by (rule hr_http_fails [THEN conjunct1]; assumption)
  subgoal by (rule hr_http_fails [THEN conjunct2, THEN conjunct1]; assumption)
  subgoal by (rule hr_http_fails [THEN conjunct2, THEN conjunct2]; assumption)
  subgoal by (rule applicant_succeeds [THEN conjunct1]; assumption)
  subgoal by (rule applicant_succeeds [THEN conjunct2, THEN conjunct1]; assumption)
  subgoal by (rule applicant_succeeds [THEN conjunct2, THEN conjunct2]; assumption)
  subgoal by (rule hr_succeeds [THEN conjunct1]; assumption)
  subgoal by (rule hr_succeeds [THEN conjunct2, THEN conjunct1]; assumption)
  subgoal by (rule hr_succeeds [THEN conjunct2, THEN conjunct2]; assumption)
  done

theorem scoring_sequence_witness:
  "(download_error demo_env = None
   \<and> map_of (bucket demo_world) ''u1/cv.pdf'' = Some ''%PDF''
   \<and> ok 200
   \<and> calls (snd (calculateAndSaveAtsScore demo_env ''a1'' ''Senior Go Engineer'' ''u1/cv.pdf''
                   demo_world))
      = calls demo_world @
          [StorageDownload ''u1/cv.pdf'',
           Fetch ''POST'' (ATS_API_URL @ ''/analyze-resume'')
             [(''job_description'', Text ''Senior Go Engineer''), (''resume_file'', Blob ''%PDF'')],
           UpdateScores ''a1'' (res_ats_score demo_result) (res_predicted_category demo_result)
             (res_confidence demo_result) (clock demo_env)])
   \<and> (map_of (bucket (demo_world\<lparr>bucket := []\<rparr>)) ''u1/cv.pdf'' = None
   \<and> isl (fst (calculateAndSaveAtsScore demo_env ''a1'' ''Senior Go Engineer'' ''u1/cv.pdf''
                 (demo_world\<lparr>bucket := []\<rparr>)))
   \<and> calls (snd (calculateAndSaveAtsScore demo_env ''a1'' ''Senior Go Engineer'' ''u1/cv.pdf''
                   (demo_world\<lparr>bucket := []\<rparr>)))
      = calls (demo_world\<lparr>bucket := []\<rparr>) @ [StorageDownload ''u1/cv.pdf'']
   \<and> \<not> ok 500
   \<and> \<not> success (fst (calculateAtsScore
                       (demo_env\<lparr>fetch := (\<lambda>url formData. Response 500 (Inl (Error ''Unexpected token'')))\<rparr>)
                       ''a1'' ''Senior Go Engineer'' ''u1/cv.pdf'' (demo_world, demo_hr)))
   \<and> calls (fst (snd (calculateAtsScore
                        (demo_env\<lparr>fetch := (\<lambda>url formData. Response 500 (Inl (Error ''Unexpected token'')))\<rparr>)
                        ''a1'' ''Senior Go Engineer'' ''u1/cv.pdf'' (demo_world, demo_hr))))
      = calls demo_world @
          [StorageDownload ''u1/cv.pdf'',
           Fetch ''POST'' (HR_ATS_API_URL @ ''/analyze-resume'')
             [(''job_description'', Text ''Senior Go Engineer''), (''resume_file'', Blob ''%PDF'')]])"
proof -
  have p1: "download_error demo_env = None
       \<and> map_of (bucket demo_world) ''u1/cv.pdf'' = Some ''%PDF''
       \<and> ok 200
       \<and> calls (snd (calculateAndSaveAtsScore demo_env ''a1'' ''Senior Go Engineer'' ''u1/cv.pdf''
                       demo_world))
          = calls demo_world @
              [StorageDownload ''u1/cv.pdf'',
               Fetch ''POST'' (ATS_API_URL @ ''/analyze-resume'')
                 [(''job_description'', Text ''Senior Go Engineer''), (''resume_file'', Blob ''%PDF'')],
               UpdateScores ''a1'' (res_ats_score demo_result) (res_predicted_category demo_result)
                 (res_confidence demo_result) (clock demo_env)]"
  proof -
    have h: "download_error demo_env = None \<and> map_of (bucket demo_world) ''u1/cv.pdf'' = Some ''%PDF''"
      by (simp add: demo_defs)
    have f: "fetch demo_env (ATS_API_URL @ ''/analyze-resume'')
               [(''job_description'', Text ''Senior Go Engineer''), (''resume_file'', Blob ''%PDF'')]
             = Response 200 (Inr demo_result) \<and> ok 200 \<and> update_error demo_env = None"
      by (simp add: demo_defs ok_def)
    note t = scoring_sequence [of demo_env demo_world "''u1/cv.pdf''" "''a1''" "''Senior Go Engineer''"
        demo_hr "''%PDF''", THEN conjunct2, rule_format, OF h]
    note u = t [THEN conjunct2, THEN conjunct2, THEN conjunct1, rule_format, OF f]
    show ?thesis
      by (intro conjI h [THEN conjunct1] h [THEN conjunct2] f [THEN conjunct2, THEN conjunct1]
          u [THEN conjunct2, THEN conjunct1])
  qed
  have p2: "map_of (bucket (demo_world\<lparr>bucket := []\<rparr>)) ''u1/cv.pdf'' = None
       \<and> isl (fst (calculateAndSaveAtsScore demo_env ''a1'' ''Senior Go Engineer'' ''u1/cv.pdf''
                     (demo_world\<lparr>bucket := []\<rparr>)))
       \<and> calls (snd (calculateAndSaveAtsScore demo_env ''a1'' ''Senior Go Engineer'' ''u1/cv.pdf''
                       (demo_world\<lparr>bucket := []\<rparr>)))
          = calls (demo_world\<lparr>bucket := []\<rparr>) @ [StorageDownload ''u1/cv.pdf'']
       \<and> \<not> ok 500
       \<and> \<not> success (fst (calculateAtsScore
                           (demo_env\<lparr>fetch := (\<lambda>url formData. Response 500 (Inl (Error ''Unexpected token'')))\<rparr>)
                           ''a1'' ''Senior Go Engineer'' ''u1/cv.pdf'' (demo_world, demo_hr)))
       \<and> calls (fst (snd (calculateAtsScore
                            (demo_env\<lparr>fetch := (\<lambda>url formData. Response 500 (Inl (Error ''Unexpected token'')))\<rparr>)
                            ''a1'' ''Senior Go Engineer'' ''u1/cv.pdf'' (demo_world, demo_hr))))
          = calls demo_world @
              [StorageDownload ''u1/cv.pdf'',
               Fetch ''POST'' (HR_ATS_API_URL @ ''/analyze-resume'')
                 [(''job_description'', Text ''Senior Go Engineer''), (''resume_file'', Blob ''%PDF'')]]"
  proof -
    let ?e = "demo_env\<lparr>fetch := (\<lambda>url formData. Response 500 (Inl (Error ''Unexpected token'')))\<rparr>"
    let ?w = "demo_world\<lparr>bucket := []\<rparr>"
    have d: "map_of (bucket ?w) ''u1/cv.pdf'' = None"
      by simp
    note a = scoring_sequence [of demo_env ?w "''u1/cv.pdf''" "''a1''" "''Senior Go Engineer''"
        demo_hr "''%PDF''", THEN conjunct1, THEN mp, OF disjI2, OF d]
    have h: "download_error ?e = None \<and> map_of (bucket demo_world) ''u1/cv.pdf'' = Some ''%PDF''"
      by (simp add: demo_defs)
    have f: "case fetch ?e (HR_ATS_API_URL @ ''/analyze-resume'')
                    [(''job_description'', Text ''Senior Go Engineer''), (''resume_file'', Blob ''%PDF'')] of
               NetworkFailure x \<Rightarrow> True | Response code x \<Rightarrow> \<not> ok code"
      by (simp add: ok_def)
    have k: "\<not> ok 500"
      by (simp add: ok_def)
    note t = scoring_sequence [of ?e demo_world "''u1/cv.pdf''" "''a1''" "''Senior Go Engineer''"
        demo_hr "''%PDF''", THEN conjunct2, THEN mp, OF h]
    note u = t [THEN conjunct2, THEN conjunct1, THEN mp, OF f]
    show ?thesis
      by (intro conjI d a [THEN conjunct1] a [THEN conjunct2, THEN conjunct1] k
          u [THEN conjunct1] u [THEN conjunct2, THEN conjunct1])
  qed
  from p1 p2 show ?thesis
    by (rule conjI)
qed

text \<open>
  C9. The base URLs of the two call sites differ. When the scoring service answers the
  same at both, \<open>calculateAtsScore\<close> and \<open>calculateAndSaveAtsScore\<close> leave the same tables
  and bucket, make the same calls up to the URL of the POST, and succeed or fail together
  with the same parsed result.
\<close>

theorem same_computation_two_urls:
  "HR_ATS_API_URL \<noteq> ATS_API_URL
   \<and> ((\<forall>formData. fetch e (HR_ATS_API_URL @ ''/analyze-resume'') formData
                     = fetch e (ATS_API_URL @ ''/analyze-resume'') formData) \<longrightarrow>
         applications_tbl (fst (snd (calculateAtsScore e i jd p (w, h))))
           = applications_tbl (snd (calculateAndSaveAtsScore e i jd p w))
       \<and> resumes_tbl (fst (snd (calculateAtsScore e i jd p (w, h))))
           = resumes_tbl (snd (calculateAndSaveAtsScore e i jd p w))
       \<and> bucket (fst (snd (calculateAtsScore e i jd p (w, h))))
           = bucket (snd (calculateAndSaveAtsScore e i jd p w))
       \<and> map without_url (calls (fst (snd (calculateAtsScore e i jd p (w, h)))))
           = map without_url (calls (snd (calculateAndSaveAtsScore e i jd p w)))
       \<and> data (fst (calculateAtsScore e i jd p (w, h)))
           = (case fst (calculateAndSaveAtsScore e i jd p w) of Inl _ \<Rightarrow> None | Inr res \<Rightarrow> Some res)
       \<and> success (fst (calculateAtsScore e i jd p (w, h)))
           = (\<not> isl (fst (calculateAndSaveAtsScore e i jd p w))))"
proof (rule conjI)
  show "HR_ATS_API_URL \<noteq> ATS_API_URL"
    by (simp add: HR_ATS_API_URL_def ATS_API_URL_def)
qed (rule impI, erule same_persisted_state)

theorem same_computation_two_urls_witness:
  "(\<forall>formData. fetch demo_env (HR_ATS_API_URL @ ''/analyze-resume'') formData
                     = fetch demo_env (ATS_API_URL @ ''/analyze-resume'') formData)
   \<and> applications_tbl
        (fst (snd (calculateAtsScore demo_env ''a0'' ''Senior Go Engineer'' ''u1/cv.pdf''
                     (demo_world\<lparr>applications_tbl := [demo_application]\<rparr>, demo_hr))))
      = applications_tbl
          (snd (calculateAndSaveAtsScore demo_env ''a0'' ''Senior Go Engineer'' ''u1/cv.pdf''
                  (demo_world\<lparr>applications_tbl := [demo_application]\<rparr>)))"
proof -
  have h: "\<forall>formData. fetch demo_env (HR_ATS_API_URL @ ''/analyze-resume'') formData
                     = fetch demo_env (ATS_API_URL @ ''/analyze-resume'') formData"
    by (simp add: demo_defs)
  from same_computation_two_urls [THEN conjunct2, THEN mp, OF h, THEN conjunct1] h
  show ?thesis by (intro conjI)
qed

section \<open>Signed download URLs\<close>

text \<open>
  C8. \<open>getResumeDownloadUrl\<close> with an empty file reference returns null and leaves the world
  as it was: no storage or network call is made, nothing is logged. With a non-empty
  reference it makes one call, \<open>createSignedUrl\<close> on that reference with an expiry of 3600
  seconds.
\<close>

theorem signed_url_request:
  "(filePath = [] \<longrightarrow> getResumeDownloadUrl e filePath w = (None, w))
   \<and> (filePath \<noteq> [] \<longrightarrow>
        calls (snd (getResumeDownloadUrl e filePath w)) = calls w @ [CreateSignedUrl filePath 3600])"
  by (auto simp: getResumeDownloadUrl_def create_signed_url_def log_call_def log_note_def
      split: sum.splits)

theorem signed_url_request_witness:
  "getResumeDownloadUrl demo_env [] demo_world = (None, demo_world)
   \<and> ''u1/cv.pdf'' \<noteq> []
   \<and> calls (snd (getResumeDownloadUrl demo_env ''u1/cv.pdf'' demo_world)) =
       calls demo_world @ [CreateSignedUrl ''u1/cv.pdf'' 3600]"
  using signed_url_request [of "[]" demo_env demo_world]
    signed_url_request [of "''u1/cv.pdf''" demo_env demo_world]
  by simp

section \<open>Changing the status\<close>

text \<open>
  C10. \<open>updateApplicationStatus\<close>: when the backend reports an error, the reply is
  \<open>success = false\<close> with an error message and the hook's state (the cached list, the
  loading flag, the error) is exactly as before. Otherwise the reply is \<open>success = true\<close>,
  the cached list keeps its length and order, every entry whose \<open>application_id\<close> is the
  given id is the old entry with only \<open>status\<close> replaced, every other entry is the old
  entry, and the loading flag and the error are unchanged.
\<close>

theorem status_update_frame:
  "(status_update_error e = Some err \<longrightarrow>
      fst (updateApplicationStatus e applicationId newStatus (w, h))
        = Reply False None (Some (error_text err))
      \<and> snd (snd (updateApplicationStatus e applicationId newStatus (w, h))) = h)
   \<and> (status_update_error e = None \<longrightarrow>
      fst (updateApplicationStatus e applicationId newStatus (w, h)) = Reply True None None
      \<and> loading (snd (snd (updateApplicationStatus e applicationId newStatus (w, h)))) = loading h
      \<and> error (snd (snd (updateApplicationStatus e applicationId newStatus (w, h)))) = error h
      \<and> length (applications (snd (snd (updateApplicationStatus e applicationId newStatus (w, h)))))
          = length (applications h)
      \<and> (\<forall>i < length (applications h).
            applications (snd (snd (updateApplicationStatus e applicationId newStatus (w, h)))) ! i
            = (if application_id (applications h ! i) = applicationId
               then (applications h ! i)\<lparr>status := newStatus\<rparr>
               else applications h ! i)))"
  by (simp add: updateApplicationStatus_def update_status_def)

theorem status_update_frame_witness:
  "status_update_error (demo_env\<lparr>status_update_error := Some (Error ''permission denied'')\<rparr>)
      = Some (Error ''permission denied'')
   \<and> fst (updateApplicationStatus
            (demo_env\<lparr>status_update_error := Some (Error ''permission denied'')\<rparr>)
            ''a0'' accepted (demo_world, demo_hr))
      = Reply False None (Some ''permission denied'')
   \<and> snd (snd (updateApplicationStatus
                 (demo_env\<lparr>status_update_error := Some (Error ''permission denied'')\<rparr>)
                 ''a0'' accepted (demo_world, demo_hr))) = demo_hr
   \<and> status_update_error demo_env = None
   \<and> fst (updateApplicationStatus demo_env ''a0'' accepted (demo_world, demo_hr))
      = Reply True None None
   \<and> length (applications
        (snd (snd (updateApplicationStatus demo_env ''a0'' accepted (demo_world, demo_hr)))))
      = length (applications demo_hr)"
proof -
  let ?e = "demo_env\<lparr>status_update_error := Some (Error ''permission denied'')\<rparr>"
  have h1: "status_update_error ?e = Some (Error ''permission denied'')"
    by (simp add: demo_defs)
  have h2: "status_update_error demo_env = None"
    by (simp add: demo_defs)
  note t1 = status_update_frame [of ?e "Error ''permission denied''" "''a0''" accepted
      demo_world demo_hr, THEN conjunct1, rule_format, OF h1]
  note t2 = status_update_frame [of demo_env "Error ''permission denied''" "''a0''" accepted
      demo_world demo_hr, THEN conjunct2, rule_format, OF h2]
  have e: "error_text (Error ''permission denied'') = ''permission denied''"
    by simp
  show ?thesis
    by (intro conjI h1 h2 t1 [THEN conjunct1, unfolded e] t1 [THEN conjunct2]
        t2 [THEN conjunct1] t2 [THEN conjunct2, THEN conjunct2, THEN conjunct2, THEN conjunct1])
qed

end
